theory Spec2Isabelle
  imports Main "HOL-Library.Word"
begin

section \<open>The OGP scaffolding: protocol.h, protocol.cc, client.cc, server.cc\<close>

subsection \<open>protocol.h\<close>

text \<open>
  \<^verbatim>\<open>constexpr uint16_t kProtocolVersion = 1;\<close>
\<close>

definition kProtocolVersion :: "16 word" where
  "kProtocolVersion = 1"

text \<open>
  \<^verbatim>\<open>class Protocol { public: Protocol(); ~Protocol(); ... };\<close>
  The class declares no data member, so an object has exactly one state. The constructor
  \<^verbatim>\<open>Protocol::Protocol() {}\<close> is the constructor of the datatype; the destructor
  has an empty body.
\<close>

datatype Protocol = Protocol

text \<open>
  Modelled from the spec: the error kinds of section 7. The source declares no error
  type, and no function of it has a \<^verbatim>\<open>throw\<close> or an error return; the
  kinds are named here so that a failure the specification expects can be written down
  and compared with what a method body returns.
\<close>

datatype error =
    PayloadTooLarge
  | VersionMismatch
  | CorruptFrame
  | ConnectionClosed
  | SessionClosed
  | IOError
  | ConnectFailed
  | BindFailed

text \<open>
  Modelled from the spec: the size limit of a Message payload, which section 3 gives
  as 16 MiB by way of example. The source has no such constant.
\<close>

definition maxLength :: nat where
  "maxLength = 16 * 1024 * 1024"

text \<open>
  Modelled from the spec: the version field of a frame, the first two bytes of the buffer
  read big-endian (\<^verbatim>\<open>[version:u16][length:u32][payload]\<close>); a buffer of fewer
  than two bytes has none. The source never reads it.
\<close>

definition frame_version :: "string \<Rightarrow> 16 word option" where
  "frame_version buf =
     (case buf of
        hi # lo # _ \<Rightarrow> Some (word_of_nat (of_char hi * 256 + of_char lo))
      | _ \<Rightarrow> None)"

subsection \<open>protocol.cc\<close>

text \<open>
  A \<^verbatim>\<open>std::string\<close> is a sequence of bytes: \<^typ>\<open>string\<close>.

  \<^verbatim>\<open>uint16_t Protocol::GetVersion() const { return kProtocolVersion; }\<close>
  A const method: a function of the object.
\<close>

definition GetVersion :: "Protocol \<Rightarrow> 16 word" where
  "GetVersion this = kProtocolVersion"

text \<open>
  \<^verbatim>\<open>std::string Protocol::Serialize(const std::string& message) { return message; }\<close>
  \<^verbatim>\<open>std::string Protocol::Deserialize(const std::string& data) { return data; }\<close>
  Both are non-const methods: the model returns the outcome of the call (\<open>Inr\<close> the
  returned string, \<open>Inl\<close> an error) together with the object as the call leaves it.
  Each body is a single \<^verbatim>\<open>return\<close> of its argument.
\<close>

definition Serialize :: "Protocol \<Rightarrow> string \<Rightarrow> (error + string) \<times> Protocol" where
  "Serialize this message = (Inr message, this)"

definition Deserialize :: "Protocol \<Rightarrow> string \<Rightarrow> (error + string) \<times> Protocol" where
  "Deserialize this data = (Inr data, this)"

subsection \<open>Standard output\<close>

text \<open>
  The state of a running process, as far as the entry points touch it: the bytes written to
  \<^verbatim>\<open>std::cout\<close> so far.
\<close>

record process =
  cout :: string

text \<open>\<^verbatim>\<open>std::cout << s\<close> for a string literal appends its bytes.\<close>

definition put_string :: "string \<Rightarrow> process \<Rightarrow> process" where
  "put_string s w = w\<lparr>cout := cout w @ s\<rparr>"

text \<open>
  \<^verbatim>\<open>std::cout << n\<close> for an \<^verbatim>\<open>unsigned short\<close> appends its decimal
  digits, most significant first, with no padding.
\<close>

definition dec_digit :: "nat \<Rightarrow> char" where
  "dec_digit d = ''0123456789'' ! d"

function decimal :: "nat \<Rightarrow> string" where
  "decimal n = (if n < 10 then [dec_digit n] else decimal (n div 10) @ [dec_digit (n mod 10)])"
  by pat_completeness auto
termination
  by (relation "measure (\<lambda>n. n)") auto

declare decimal.simps [simp del]

definition put_uint16 :: "16 word \<Rightarrow> process \<Rightarrow> process" where
  "put_uint16 n w = w\<lparr>cout := cout w @ decimal (unat n)\<rparr>"

text \<open>\<^verbatim>\<open>std::cout << std::endl\<close> appends a newline (and flushes the stream).\<close>

definition endl :: "process \<Rightarrow> process" where
  "endl w = w\<lparr>cout := cout w @ [CHR 0x0A]\<rparr>"

subsection \<open>client.cc and server.cc\<close>

text \<open>
  \<^verbatim>\<open>int main(int argc, char* argv[])\<close> of client.cc: three output statements
  around the construction of a local \<^verbatim>\<open>ogp::Protocol\<close>, then
  \<^verbatim>\<open>return 0\<close>. The model returns the exit code and the process state.
\<close>

definition client_main :: "int \<Rightarrow> string list \<Rightarrow> process \<Rightarrow> int \<times> process" where
  "client_main argc argv w0 =
     (let w1 = endl (put_string ''OGP Client starting...'' w0);
          protocol = Protocol;
          w2 = endl (put_uint16 (GetVersion protocol) (put_string ''Protocol version: '' w1));
          w3 = endl (put_string ''OGP Client ready'' w2)
      in (0, w3))"

text \<open>The same function of server.cc; only the two literals differ.\<close>

definition server_main :: "int \<Rightarrow> string list \<Rightarrow> process \<Rightarrow> int \<times> process" where
  "server_main argc argv w0 =
     (let w1 = endl (put_string ''OGP Server starting...'' w0);
          protocol = Protocol;
          w2 = endl (put_uint16 (GetVersion protocol) (put_string ''Protocol version: '' w1));
          w3 = endl (put_string ''OGP Server ready'' w2)
      in (0, w3))"

section \<open>Properties\<close>

subsection \<open>Helper facts\<close>

lemma unat_kProtocolVersion: "unat kProtocolVersion = 1"
  by (simp add: kProtocolVersion_def)

lemma decimal_one: "decimal (Suc 0) = ''1''"
  by (subst decimal.simps) (simp add: dec_digit_def)

lemma decimal_kProtocolVersion: "decimal (unat kProtocolVersion) = ''1''"
  by (simp add: unat_kProtocolVersion decimal_one)

subsection \<open>The Protocol class\<close>

text \<open>
  C1. For every string \<open>s\<close>, \<open>Serialize(s)\<close> returns \<open>s\<close> unchanged, and for every
  string \<open>d\<close>, \<open>Deserialize(d)\<close> returns \<open>d\<close> unchanged: both methods are the identity
  on strings.
\<close>

theorem Serialize_Deserialize_identity:
  "fst (Serialize p s) = Inr s \<and> fst (Deserialize p d) = Inr d"
  by (simp add: Serialize_def Deserialize_def)

text \<open>
  C3. For every Protocol object \<open>p\<close>, \<open>p.GetVersion()\<close> returns \<open>kProtocolVersion\<close>, and
  \<open>kProtocolVersion\<close> equals 1.
\<close>

theorem GetVersion_is_kProtocolVersion:
  "GetVersion p = kProtocolVersion \<and> kProtocolVersion = 1"
  by (simp add: GetVersion_def kProtocolVersion_def)

text \<open>
  C2. Round-trip law: for every valid Message \<open>m\<close> within the size limit, decoding the
  encoding of \<open>m\<close>, that is \<open>Deserialize(Serialize(m))\<close>, yields a Message equal to \<open>m\<close>.
  The code has it for every string \<open>m\<close>, of whatever length: \<open>Serialize\<close> returns some
  bytes, and \<open>Deserialize\<close>, called on the object as \<open>Serialize\<close> left it, returns \<open>m\<close>
  from them.
\<close>

theorem Deserialize_Serialize_roundtrip:
  "\<exists>bytes p'. Serialize p m = (Inr bytes, p') \<and> fst (Deserialize p' bytes) = Inr m"
  by (simp add: Serialize_def Deserialize_def)

text \<open>
  C9. The reverse round trip: for every string \<open>d\<close>, \<open>Serialize(Deserialize(d)) = d\<close>.
  \<open>Deserialize\<close> returns some message for every buffer, and \<open>Serialize\<close>, called on the
  object as \<open>Deserialize\<close> left it, returns \<open>d\<close> from that message.
\<close>

theorem Serialize_Deserialize_roundtrip:
  "\<exists>msg p'. Deserialize p d = (Inr msg, p') \<and> fst (Serialize p' msg) = Inr d"
  by (simp add: Serialize_def Deserialize_def)

text \<open>
  C4, as the specification states it: encoding a payload of length \<open>maxLength + 1\<close> fails
  with \<open>PayloadTooLarge\<close>. The code does not: for the payload of \<open>maxLength + 1\<close> bytes
  \<open>a\<close>, \<open>Serialize\<close> returns the payload.
\<close>

theorem Serialize_PayloadTooLarge_counterexample:
  "length (replicate (maxLength + 1) (CHR ''a'')) = maxLength + 1
   \<and> fst (Serialize Protocol (replicate (maxLength + 1) (CHR ''a'')))
       = Inr (replicate (maxLength + 1) (CHR ''a''))
   \<and> fst (Serialize Protocol (replicate (maxLength + 1) (CHR ''a''))) \<noteq> Inl PayloadTooLarge"
  by (simp add: Serialize_def)

text \<open>
  C4, amended: \<open>Serialize\<close> has no size limit. Encoding a payload of any length, of
  \<open>maxLength + 1\<close> as of exactly \<open>maxLength\<close>, succeeds and returns the payload; it never
  fails with \<open>PayloadTooLarge\<close>.
\<close>

theorem Serialize_never_PayloadTooLarge:
  "fst (Serialize p m) = Inr m \<and> fst (Serialize p m) \<noteq> Inl PayloadTooLarge"
  by (simp add: Serialize_def)

text \<open>
  C5, as the specification states it: decoding a buffer whose frame version field differs
  from \<open>kProtocolVersion\<close> fails with \<open>VersionMismatch\<close>. The code does not: the six-byte
  buffer \<open>00 02 00 00 00 00\<close> (version 2, length 0) is returned as it is.
\<close>

theorem Deserialize_VersionMismatch_counterexample:
  "frame_version [CHR 0x00, CHR 0x02, CHR 0x00, CHR 0x00, CHR 0x00, CHR 0x00] = Some 2
   \<and> (2 :: 16 word) \<noteq> kProtocolVersion
   \<and> fst (Deserialize Protocol [CHR 0x00, CHR 0x02, CHR 0x00, CHR 0x00, CHR 0x00, CHR 0x00])
       = Inr [CHR 0x00, CHR 0x02, CHR 0x00, CHR 0x00, CHR 0x00, CHR 0x00]
   \<and> fst (Deserialize Protocol [CHR 0x00, CHR 0x02, CHR 0x00, CHR 0x00, CHR 0x00, CHR 0x00])
       \<noteq> Inl VersionMismatch"
  by (simp add: frame_version_def kProtocolVersion_def Deserialize_def)

text \<open>
  C5, amended: \<open>Deserialize\<close> does not look at the version field. Decoding any buffer,
  whatever its first two bytes, succeeds and returns the buffer; it never fails with
  \<open>VersionMismatch\<close>, and it leaves the object and (taking its argument by const reference)
  the input buffer as they were.
\<close>

theorem Deserialize_never_VersionMismatch:
  "Deserialize p buf = (Inr buf, p) \<and> fst (Deserialize p buf) \<noteq> Inl VersionMismatch"
  by (simp add: Deserialize_def)

text \<open>
  C6, as the specification states it: encoding a message of payload length \<open>L\<close> produces
  exactly \<open>6 + L\<close> bytes. The code does not: for the payload \<open>ping\<close>, of 4 bytes,
  \<open>Serialize\<close> returns 4 bytes, not 10.
\<close>

theorem Serialize_length_counterexample:
  "fst (Serialize Protocol ''ping'') = Inr ''ping''
   \<and> length (projr (fst (Serialize Protocol ''ping''))) = 4
   \<and> length (projr (fst (Serialize Protocol ''ping''))) \<noteq> 6 + length ''ping''"
  by (simp add: Serialize_def)

text \<open>
  C6, amended: for every message of payload length \<open>L\<close>, \<open>Serialize\<close> returns normally
  and produces exactly \<open>L\<close> bytes, never \<open>6 + L\<close>: the bytes are the payload itself, in
  order, with no header before them. The encoding has no side effect: the object, which has
  no data member, is as it was, and the argument is a const reference.
\<close>

theorem Serialize_length:
  "Serialize p m = (Inr m, p)
   \<and> length (projr (fst (Serialize p m))) = length m
   \<and> length (projr (fst (Serialize p m))) \<noteq> 6 + length m"
  by (simp add: Serialize_def)

subsection \<open>The entry points\<close>

text \<open>
  C7. Both entry points print a startup line, the protocol version and a ready line to
  standard output, in that order, instantiate the Protocol object without exchanging any
  data, and return exit code 0. Whatever had been written before, each \<open>main\<close> appends its
  three lines, the second one carrying the decimal digits of \<open>kProtocolVersion\<close>, which are
  \<open>1\<close>; nothing else of the process changes.
\<close>

theorem main_prints_three_lines_returns_0:
  "client_main argc argv w =
     (0, w\<lparr>cout := cout w
            @ ''OGP Client starting...'' @ [CHR 0x0A]
            @ ''Protocol version: '' @ decimal (unat kProtocolVersion) @ [CHR 0x0A]
            @ ''OGP Client ready'' @ [CHR 0x0A]\<rparr>)
   \<and> server_main argc argv w =
     (0, w\<lparr>cout := cout w
            @ ''OGP Server starting...'' @ [CHR 0x0A]
            @ ''Protocol version: '' @ decimal (unat kProtocolVersion) @ [CHR 0x0A]
            @ ''OGP Server ready'' @ [CHR 0x0A]\<rparr>)
   \<and> decimal (unat kProtocolVersion) = ''1''"
  by (simp add: client_main_def server_main_def put_string_def put_uint16_def endl_def
      GetVersion_def decimal_kProtocolVersion)

text \<open>
  C8. The entry points ignore their command-line arguments: for any two invocations, with
  whatever \<open>argc\<close> and \<open>argv\<close>, started in the same process state, standard output and
  exit code are the same.
\<close>

theorem main_ignores_arguments:
  "client_main argc argv w = client_main argc' argv' w
   \<and> server_main argc argv w = server_main argc' argv' w"
  by (simp add: client_main_def server_main_def)

end
